theory Spec2Isabelle
  imports Complex_Main
begin

section \<open>The test sequencer of main.py\<close>

text \<open>
  The development embeds \<^verbatim>\<open>TestRunner\<close> of \<^verbatim>\<open>src/main.py\<close>: the value parser,
  the error recorder, the external tool invoker, the fifteen command handlers, the
  dispatcher, the report finaliser and the run loop.

  Conventions of the embedding:
  \<^item> the mutable fields of \<^verbatim>\<open>TestRunner\<close> are a record that every handler takes and
    returns; an exception that leaves a handler is the first component of its result;
  \<^item> Python floats are exact reals: rounding, infinities and NaN are outside the model.
    The builtin \<^verbatim>\<open>float(str)\<close>, the format \<^verbatim>\<open>:.4f\<close>, the clock and the
    subprocesses are not code of the repository; they are the fields of an environment
    that every theorem quantifies over;
  \<^item> strings are byte strings; scripts are taken to be ASCII, and the message texts that
    the source writes in Chinese are rendered in English;
  \<^item> printing to the terminal and the file system (the report file, the screenshot
    directory) are not modelled; the report is the value that would be written.
\<close>

subsection \<open>Python string methods\<close>

text \<open>\<^verbatim>\<open>str.isspace\<close> on the ASCII range.\<close>

definition isspace :: "char \<Rightarrow> bool" where
  "isspace c \<longleftrightarrow> c \<in> set [CHR 0x09, CHR 0x0A, CHR 0x0B, CHR 0x0C, CHR 0x0D,
                            CHR 0x1C, CHR 0x1D, CHR 0x1E, CHR 0x1F, CHR 0x20]"

definition strip :: "string \<Rightarrow> string" where
  "strip s = rev (dropWhile isspace (rev (dropWhile isspace s)))"

text \<open>\<^verbatim>\<open>s.split()\<close>: the maximal runs of non-whitespace; \<open>w\<close> is the run being read.\<close>

fun split_acc :: "string \<Rightarrow> string \<Rightarrow> string list" where
  "split_acc w [] = (if w = [] then [] else [w])"
| "split_acc w (c # cs) =
     (if isspace c then (if w = [] then split_acc [] cs else w # split_acc [] cs)
      else split_acc (w @ [c]) cs)"

definition split :: "string \<Rightarrow> string list" where
  "split s = split_acc [] s"

definition startswith :: "string \<Rightarrow> string \<Rightarrow> bool" where
  "startswith s p \<longleftrightarrow> take (length p) s = p"

definition endswith :: "string \<Rightarrow> string \<Rightarrow> bool" where
  "endswith s p \<longleftrightarrow> length p \<le> length s \<and> drop (length s - length p) s = p"

text \<open>\<^verbatim>\<open>sub in s\<close>.\<close>

fun contains :: "string \<Rightarrow> string \<Rightarrow> bool" where
  "contains sub [] = (sub = [])"
| "contains sub (c # cs) = (startswith (c # cs) sub \<or> contains sub cs)"

text \<open>\<^verbatim>\<open>s.replace(sub, "")\<close> for a non-empty \<open>sub\<close>: occurrences are removed left to right.\<close>

function remove_all :: "string \<Rightarrow> string \<Rightarrow> string" where
  "remove_all sub [] = []"
| "remove_all sub (c # cs) =
     (if sub \<noteq> [] \<and> startswith (c # cs) sub then remove_all sub (drop (length sub) (c # cs))
      else c # remove_all sub cs)"
  by pat_completeness auto
termination
  by (relation "measure (\<lambda>(sub, s). length s)") auto

definition lower_char :: "char \<Rightarrow> char" where
  "lower_char c = (case map_of (zip ''ABCDEFGHIJKLMNOPQRSTUVWXYZ'' ''abcdefghijklmnopqrstuvwxyz'') c of
                     None \<Rightarrow> c | Some d \<Rightarrow> d)"

definition upper_char :: "char \<Rightarrow> char" where
  "upper_char c = (case map_of (zip ''abcdefghijklmnopqrstuvwxyz'' ''ABCDEFGHIJKLMNOPQRSTUVWXYZ'') c of
                     None \<Rightarrow> c | Some d \<Rightarrow> d)"

definition str_lower :: "string \<Rightarrow> string" where
  "str_lower s = map lower_char s"

definition str_upper :: "string \<Rightarrow> string" where
  "str_upper s = map upper_char s"

text \<open>\<^verbatim>\<open>sep.join(xs)\<close>.\<close>

fun join :: "string \<Rightarrow> string list \<Rightarrow> string" where
  "join sep [] = []"
| "join sep [x] = x"
| "join sep (x # y # ys) = x @ sep @ join sep (y # ys)"

text \<open>\<^verbatim>\<open>s.strip('"')\<close>.\<close>

definition strip_quotes :: "string \<Rightarrow> string" where
  "strip_quotes s =
     rev (dropWhile (\<lambda>c. c = CHR 0x22) (rev (dropWhile (\<lambda>c. c = CHR 0x22) s)))"

subsection \<open>Exceptions, the environment and the runner's state\<close>

datatype exn = ValueError string | IndexError | OSError string | KeyboardInterrupt

text \<open>\<^verbatim>\<open>except Exception\<close> catches everything but the interrupt.\<close>

definition is_Exception :: "exn \<Rightarrow> bool" where
  "is_Exception x \<longleftrightarrow> x \<noteq> KeyboardInterrupt"

text \<open>\<^verbatim>\<open>str(e)\<close>.\<close>

fun str_exn :: "exn \<Rightarrow> string" where
  "str_exn (ValueError m) = m"
| "str_exn IndexError = ''list index out of range''"
| "str_exn (OSError m) = m"
| "str_exn KeyboardInterrupt = ''''"

text \<open>
  What a subprocess does: it exits with a return code, its standard output and its
  standard error; or starting or awaiting it raises an exception with the given text;
  or the operator interrupts while the runner waits for it.
\<close>

datatype outcome = Exited int string string | SpawnFailed string | Interrupted

text \<open>
  The environment: \<open>pyfloat\<close> is the builtin \<^verbatim>\<open>float\<close> on strings (\<open>None\<close> is its
  ValueError), \<open>fmt4\<close> the format \<^verbatim>\<open>:.4f\<close>, \<open>tool n argv\<close> what the subprocess started
  as the \<open>n\<close>-th blocking call does, \<open>sleep n d\<close> whether the operator interrupts
  \<^verbatim>\<open>time.sleep(d)\<close> made as the \<open>n\<close>-th blocking call, \<open>hms n\<close> the time of day then, and
  \<open>python_exe\<close> is \<^verbatim>\<open>sys.executable\<close>.
\<close>

record env =
  pyfloat :: "string \<Rightarrow> real option"
  fmt4 :: "real \<Rightarrow> string"
  tool :: "nat \<Rightarrow> string list \<Rightarrow> outcome"
  sleep :: "nat \<Rightarrow> real \<Rightarrow> bool"
  hms :: "nat \<Rightarrow> string"
  python_exe :: string

datatype verdict = PASS | FAIL

text \<open>The dictionary \<^verbatim>\<open>current_test_data\<close>, with its six keys.\<close>

record test_data =
  tc_id :: string
  tc_title :: string
  tc_result :: verdict
  tc_expected :: "string list"
  tc_actual :: "string list"
  tc_note :: string

text \<open>
  The fields of \<^verbatim>\<open>TestRunner\<close>. A key of \<open>config\<close> that maps to \<open>None\<close> is a key the
  dictionary lacks or maps to \<^verbatim>\<open>None\<close>: the source reads only the three keys it
  initialises. \<open>clock\<close> counts the blocking calls made so far.
\<close>

record state =
  variables :: "string \<rightharpoonup> real"
  config :: "string \<rightharpoonup> string"
  failed_tests :: "string list"
  test_results :: "test_data list"
  current_test_data :: "test_data option"
  current_test_id :: string
  current_test_title :: string
  clock :: nat

definition init :: state where
  "init = \<lparr>variables = Map.empty, config = Map.empty, failed_tests = [], test_results = [],
            current_test_data = None, current_test_id = ''N/A'', current_test_title = '''',
            clock = 0\<rparr>"

subsection \<open>error and run\_external\_tool\<close>

definition error :: "string \<Rightarrow> state \<Rightarrow> state" where
  "error msg s =
     (let s1 = (if current_test_id s \<notin> set (failed_tests s)
                then s\<lparr>failed_tests :=
                        failed_tests s @ [current_test_id s @ '' ('' @ current_test_title s @ '')'']\<rparr>
                else s)
      in case current_test_data s1 of
           None \<Rightarrow> s1
         | Some d \<Rightarrow>
             s1\<lparr>current_test_data := Some (d\<lparr>tc_result := FAIL,
                  tc_note := (if \<not> contains msg (tc_note d) then tc_note d @ msg @ ''; ''
                              else tc_note d)\<rparr>)\<rparr>)"

definition run_external_tool ::
  "env \<Rightarrow> string list \<Rightarrow> string \<Rightarrow> state \<Rightarrow> (exn + string option) \<times> state" where
  "run_external_tool e cmd_list desc s =
     (let s1 = s\<lparr>clock := Suc (clock s)\<rparr>
      in case tool e (clock s) cmd_list of
           Exited returncode stdout stderr \<Rightarrow>
             (if returncode \<noteq> 0
              then (Inr None, error (''tool failed ['' @ desc @ '']: '' @ strip stderr) s1)
              else (Inr (Some (strip stdout)), s1))
         | Interrupted \<Rightarrow> (Inl KeyboardInterrupt, s1)
         | SpawnFailed m \<Rightarrow> (Inr None, error (''system exception ['' @ desc @ '']: '' @ m) s1))"

subsection \<open>parse\_value\<close>

definition to_float :: "env \<Rightarrow> string \<Rightarrow> exn + real" where
  "to_float e s =
     (case pyfloat e s of
        None \<Rightarrow> Inl (ValueError (''could not convert string to float: '' @ [CHR 0x27] @ s @ [CHR 0x27]))
      | Some x \<Rightarrow> Inr x)"

definition undefined_variable :: "string \<Rightarrow> exn" where
  "undefined_variable v = ValueError (''undefined variable used: '' @ v @ '' (define it with DEF_VAR first)'')"

definition parse_value :: "env \<Rightarrow> state \<Rightarrow> string \<Rightarrow> exn + real" where
  "parse_value e s val_str0 =
     (let val_str = strip val_str0 in
      if startswith val_str ''$'' then
        (case variables s val_str of
           Some x \<Rightarrow> Inr x
         | None \<Rightarrow> Inl (undefined_variable val_str))
      else if endswith val_str ''%'' then
        (case to_float e (butlast val_str) of Inl x \<Rightarrow> Inl x | Inr v \<Rightarrow> Inr (v / 100))
      else
        (let lower_s = str_lower val_str in
         if contains ''ma'' lower_s then
           (case to_float e (remove_all ''ma'' lower_s) of Inl x \<Rightarrow> Inl x | Inr v \<Rightarrow> Inr (v / 1000))
         else if contains ''a'' lower_s then to_float e (remove_all ''a'' lower_s)
         else to_float e val_str))"

subsection \<open>The command handlers\<close>

text \<open>\<^verbatim>\<open>xs[i]\<close> for \<open>i \<ge> 0\<close>.\<close>

definition index :: "'a list \<Rightarrow> nat \<Rightarrow> exn + 'a" where
  "index xs i = (if i < length xs then Inr (xs ! i) else Inl IndexError)"

definition bind_exn :: "exn + 'a \<Rightarrow> ('a \<Rightarrow> exn + 'b) \<Rightarrow> exn + 'b" where
  "bind_exn m f = (case m of Inl x \<Rightarrow> Inl x | Inr v \<Rightarrow> f v)"

definition RED :: string where "RED = CHR 0x1B # ''[91m''"
definition RESET :: string where "RESET = CHR 0x1B # ''[0m''"

definition PATH_POWER_CTRL :: string where "PATH_POWER_CTRL = ''power_ctrl/power_ctrl_cli.py''"
definition PATH_RES_CTRL :: string where "PATH_RES_CTRL = ''res_ctrl/resistance_cli.py''"
definition PATH_YOKOGAWA :: string where "PATH_YOKOGAWA = ''yokogawa/yokogawa.py''"

text \<open>\<^verbatim>\<open>if self.config[key]: cmd.extend([flag, self.config[key]])\<close>.\<close>

definition config_args :: "state \<Rightarrow> string \<Rightarrow> string \<Rightarrow> string list" where
  "config_args s key flag =
     (case config s key of None \<Rightarrow> [] | Some v \<Rightarrow> if v = [] then [] else [flag, v])"

text \<open>A call whose value is dropped: only an exception that escapes it matters.\<close>

definition discard :: "(exn + 'a) \<times> state \<Rightarrow> exn option \<times> state" where
  "discard r = (case r of (Inl x, s) \<Rightarrow> (Some x, s) | (Inr v, s) \<Rightarrow> (None, s))"

text \<open>\<^verbatim>\<open>time.sleep(d)\<close>.\<close>

definition py_sleep :: "env \<Rightarrow> real \<Rightarrow> state \<Rightarrow> exn option \<times> state" where
  "py_sleep e d s =
     (if d < 0 then (Some (ValueError ''sleep length must be non-negative''), s)
      else if sleep e (clock s) d then (Some KeyboardInterrupt, s\<lparr>clock := Suc (clock s)\<rparr>)
      else (None, s\<lparr>clock := Suc (clock s)\<rparr>))"

definition cmd_def_var :: "env \<Rightarrow> string list \<Rightarrow> state \<Rightarrow> exn option \<times> state" where
  "cmd_def_var e args s =
     (if length args < 1
      then (None, error ''DEF_VAR lacks an argument. Format: DEF_VAR <$VAR> [Value]'' s)
      else
        (let var_name = args ! 0 in
         if \<not> startswith var_name ''$''
         then (None, error (''variable name must start with $: '' @ var_name) s)
         else if length args \<ge> 2 then
           (case parse_value e s (args ! 1) of
              Inl x \<Rightarrow>
                (if is_Exception x
                 then (None, error (''initial value of the variable does not parse: '' @ str_exn x) s)
                 else (Some x, s))
            | Inr initial_value \<Rightarrow> (None, s\<lparr>variables := (variables s)(var_name \<mapsto> initial_value)\<rparr>))
         else (None, s\<lparr>variables := (variables s)(var_name \<mapsto> 0)\<rparr>)))"

definition cmd_config :: "env \<Rightarrow> string list \<Rightarrow> state \<Rightarrow> exn option \<times> state" where
  "cmd_config e args s =
     (if length args < 2 then (None, error ''CONFIG lacks arguments'' s)
      else (None, s\<lparr>config := (config s)(str_upper (args ! 0) \<mapsto> args ! 1)\<rparr>))"

text \<open>
  The previous case is appended before \<^verbatim>\<open>args[0]\<close> is read, so the append stays when
  the read raises.
\<close>

definition cmd_test :: "env \<Rightarrow> string list \<Rightarrow> state \<Rightarrow> exn option \<times> state" where
  "cmd_test e args s =
     (let s1 = (case current_test_data s of
                  None \<Rightarrow> s
                | Some d \<Rightarrow> s\<lparr>test_results := test_results s @ [d]\<rparr>)
      in case index args 0 of
           Inl x \<Rightarrow> (Some x, s1)
         | Inr a0 \<Rightarrow>
             (let title = strip_quotes (join '' '' (drop 1 args))
              in (None, s1\<lparr>current_test_id := a0, current_test_title := title,
                    current_test_data := Some \<lparr>tc_id = a0, tc_title = title, tc_result = PASS,
                      tc_expected = [], tc_actual = [], tc_note = ''''\<rparr>\<rparr>)))"

definition cmd_power_on :: "env \<Rightarrow> string list \<Rightarrow> state \<Rightarrow> exn option \<times> state" where
  "cmd_power_on e args s =
     (let v = (if length args > 0 then args ! 0 else ''12.0'');
          c = (if length args > 1 then args ! 1 else ''2.0'');
          cmd = [python_exe e, PATH_POWER_CTRL, ''-v'', v, ''-c'', c, ''-o'', ''on'']
                @ config_args s ''POWER_ADDR'' ''-a''
      in discard (run_external_tool e cmd (''power on '' @ v @ ''V '' @ c @ ''A'') s))"

definition cmd_power_off :: "env \<Rightarrow> string list \<Rightarrow> state \<Rightarrow> exn option \<times> state" where
  "cmd_power_off e args s =
     (let cmd = [python_exe e, PATH_POWER_CTRL, ''-o'', ''off''] @ config_args s ''POWER_ADDR'' ''-a''
      in discard (run_external_tool e cmd ''power off'' s))"

definition cmd_power_cycle :: "env \<Rightarrow> string list \<Rightarrow> state \<Rightarrow> exn option \<times> state" where
  "cmd_power_cycle e args s =
     (case cmd_power_off e [] s of
        (Some x, s1) \<Rightarrow> (Some x, s1)
      | (None, s1) \<Rightarrow>
          (case py_sleep e 1 s1 of
             (Some x, s2) \<Rightarrow> (Some x, s2)
           | (None, s2) \<Rightarrow>
               (let cmd = [python_exe e, PATH_POWER_CTRL, ''-o'', ''on'']
                          @ config_args s2 ''POWER_ADDR'' ''-a''
                in discard (run_external_tool e cmd ''power on (output restored)'' s2))))"

definition cmd_res_set :: "env \<Rightarrow> string list \<Rightarrow> state \<Rightarrow> exn option \<times> state" where
  "cmd_res_set e args s =
     (case index args 0 of
        Inl x \<Rightarrow> (Some x, s)
      | Inr val \<Rightarrow>
          (let cmd = [python_exe e, PATH_RES_CTRL, ''-v'', val, ''--action'', ''connect'']
                     @ config_args s ''RES_PORT'' ''-p''
           in discard (run_external_tool e cmd (''set resistance '' @ val) s)))"

definition cmd_res_open :: "env \<Rightarrow> string list \<Rightarrow> state \<Rightarrow> exn option \<times> state" where
  "cmd_res_open e args s =
     (let cmd = [python_exe e, PATH_RES_CTRL, ''--action'', ''disconnect'']
                @ config_args s ''RES_PORT'' ''-p''
      in discard (run_external_tool e cmd ''disconnect resistance (OPEN)'' s))"

definition cmd_res_close :: "env \<Rightarrow> string list \<Rightarrow> state \<Rightarrow> exn option \<times> state" where
  "cmd_res_close e args s =
     (let cmd = [python_exe e, PATH_RES_CTRL, ''--action'', ''connect'']
                @ config_args s ''RES_PORT'' ''-p''
      in discard (run_external_tool e cmd ''connect resistance (CLOSE)'' s))"

definition cmd_screenshot :: "env \<Rightarrow> string list \<Rightarrow> state \<Rightarrow> exn option \<times> state" where
  "cmd_screenshot e args s =
     (let label = (if length args > 0 then args ! 0 else ''snap'');
          filename = current_test_id s @ ''_'' @ label @ ''_'' @ hms e (clock s) @ ''.png'';
          filepath = ''result/screen_shot/'' @ filename;
          cmd = [python_exe e, PATH_YOKOGAWA, ''shot'', ''-o'', filepath]
                @ config_args s ''SCOPE_IP'' ''--ip''
      in case run_external_tool e cmd (''screenshot '' @ filename) s of
           (Inl x, s1) \<Rightarrow> (Some x, s1)
         | (Inr out, s1) \<Rightarrow>
             (case current_test_data s1 of
                None \<Rightarrow> (None, s1)
              | Some d \<Rightarrow>
                  (None, s1\<lparr>current_test_data := Some (d\<lparr>tc_note :=
                     tc_note d @ ''!['' @ label @ ''](screen_shot/'' @ filename @ '') ''\<rparr>)\<rparr>)))"

definition cmd_wait :: "env \<Rightarrow> string list \<Rightarrow> state \<Rightarrow> exn option \<times> state" where
  "cmd_wait e args s =
     (case bind_exn (index args 0) (to_float e) of
        Inl x \<Rightarrow> (Some x, s)
      | Inr sec \<Rightarrow> py_sleep e sec s)"

definition cmd_read :: "env \<Rightarrow> string list \<Rightarrow> state \<Rightarrow> exn option \<times> state" where
  "cmd_read e args s =
     (if length args \<noteq> 3 \<or> str_upper (args ! 1) \<noteq> ''TO''
      then (None, error ''READ is malformed. Format: READ <CH> TO <$VAR>'' s)
      else
        (let channel = remove_all ''ch'' (remove_all ''CH'' (args ! 0));
             var_name = args ! 2
         in if \<not> startswith var_name ''$''
            then (None, error (''variable name must start with $: '' @ var_name) s)
            else if var_name \<notin> dom (variables s)
            then (None, error (''variable '' @ var_name @ '' is undefined. Define it with DEF_VAR ''
                                @ var_name @ '' first.'') s)
            else
              (let cmd = [python_exe e, PATH_YOKOGAWA, ''mean'', ''-c'', channel, ''--clean'']
                         @ config_args s ''SCOPE_IP'' ''--ip''
               in case run_external_tool e cmd (''read channel '' @ channel) s of
                    (Inl x, s1) \<Rightarrow> (Some x, s1)
                  | (Inr None, s1) \<Rightarrow> (None, s1)
                  | (Inr (Some output), s1) \<Rightarrow>
                      (if output = [] then (None, s1)
                       else
                         (case pyfloat e output of
                            Some val \<Rightarrow> (None, s1\<lparr>variables := (variables s1)(var_name \<mapsto> val)\<rparr>)
                          | None \<Rightarrow>
                              (None, error (''read failed, the returned value is not a number: ''
                                            @ output) s1))))))"

definition cmd_set_var :: "env \<Rightarrow> string list \<Rightarrow> state \<Rightarrow> exn option \<times> state" where
  "cmd_set_var e args s =
     (if length args \<noteq> 2
      then (None, error ''SET_VAR is malformed. Format: SET_VAR <$VAR> <Value>'' s)
      else
        (let var_name = args ! 0; value_str = args ! 1
         in if \<not> startswith var_name ''$''
            then (None, error (''variable name must start with $: '' @ var_name) s)
            else if var_name \<notin> dom (variables s)
            then (None, error (''variable '' @ var_name @ '' is undefined. Define it with DEF_VAR ''
                                @ var_name @ '' first.'') s)
            else
              (case parse_value e s value_str of
                 Inr val \<Rightarrow> (None, s\<lparr>variables := (variables s)(var_name \<mapsto> val)\<rparr>)
               | Inl x \<Rightarrow>
                   (if is_Exception x
                    then (None, error (''setting the variable failed: '' @ str_exn x) s)
                    else (Some x, s)))))"

text \<open>The three values that the \<^verbatim>\<open>try\<close> block of CHECK\_RANGE computes, in its order.\<close>

definition check_range_values :: "env \<Rightarrow> state \<Rightarrow> string list \<Rightarrow> exn + real \<times> real \<times> real" where
  "check_range_values e s args =
     bind_exn (index args 0) (\<lambda>a0.
     bind_exn (parse_value e s a0) (\<lambda>real_val.
     bind_exn (index args 1) (\<lambda>a1.
     bind_exn (parse_value e s a1) (\<lambda>expect_val.
     bind_exn (index args 2) (\<lambda>tolerance_raw.
     bind_exn (parse_value e s tolerance_raw) (\<lambda>t.
       Inr (real_val, expect_val,
            if endswith tolerance_raw ''%'' then expect_val * t else t)))))))"

definition cmd_check_range :: "env \<Rightarrow> string list \<Rightarrow> state \<Rightarrow> exn option \<times> state" where
  "cmd_check_range e args s =
     (case check_range_values e s args of
        Inl x \<Rightarrow>
          (if is_Exception x then (None, error (''CHECK_RANGE raised: '' @ str_exn x) s)
           else (Some x, s))
      | Inr (real_val, expect_val, tol_abs) \<Rightarrow>
          (let lower_v = expect_val - tol_abs;
               upper_v = expect_val + tol_abs;
               range_str = ''['' @ fmt4 e lower_v @ '', '' @ fmt4 e upper_v @ '']'';
               s1 = (case current_test_data s of
                       None \<Rightarrow> s
                     | Some d \<Rightarrow>
                         s\<lparr>current_test_data := Some (d\<lparr>tc_expected := tc_expected d @ [range_str],
                                                         tc_actual := tc_actual d @ [fmt4 e real_val]\<rparr>)\<rparr>)
           in if lower_v \<le> real_val \<and> real_val \<le> upper_v then (None, s1)
              else (None, error (RED @ ''FAIL'' @ RESET @ '': '' @ args ! 0 @ ''('' @ fmt4 e real_val
                                 @ '') is out of the range '' @ range_str @ '' (expected: ''
                                 @ args ! 1 @ '' +/-'' @ args ! 2 @ '')'') s1)))"

definition check_diff_values :: "env \<Rightarrow> state \<Rightarrow> string list \<Rightarrow> exn + real \<times> real \<times> real" where
  "check_diff_values e s args =
     bind_exn (index args 0) (\<lambda>a0.
     bind_exn (parse_value e s a0) (\<lambda>val_a.
     bind_exn (index args 1) (\<lambda>a1.
     bind_exn (parse_value e s a1) (\<lambda>val_b.
     bind_exn (index args 2) (\<lambda>a2.
     bind_exn (parse_value e s a2) (\<lambda>max_diff.
       Inr (val_a, val_b, max_diff)))))))"

definition cmd_check_diff :: "env \<Rightarrow> string list \<Rightarrow> state \<Rightarrow> exn option \<times> state" where
  "cmd_check_diff e args s =
     (case check_diff_values e s args of
        Inl x \<Rightarrow>
          (if is_Exception x then (None, error (''CHECK_DIFF raised: '' @ str_exn x) s)
           else (Some x, s))
      | Inr (val_a, val_b, max_diff) \<Rightarrow>
          (let diff = \<bar>val_a - val_b\<bar>;
               s1 = (case current_test_data s of
                       None \<Rightarrow> s
                     | Some d \<Rightarrow>
                         s\<lparr>current_test_data := Some (d\<lparr>tc_expected := tc_expected d @ [''Diff <= '' @ fmt4 e max_diff],
                                                         tc_actual := tc_actual d @ [fmt4 e diff]\<rparr>)\<rparr>)
           in if diff \<le> max_diff then (None, s1)
              else (None, error (RED @ ''FAIL'' @ RESET @ '': difference '' @ fmt4 e diff
                                 @ '' > allowed '' @ fmt4 e max_diff) s1)))"

subsection \<open>The dispatcher, the report and the run loop\<close>

definition execute_line :: "env \<Rightarrow> string \<Rightarrow> state \<Rightarrow> exn option \<times> state" where
  "execute_line e line s =
     (case split line of
        [] \<Rightarrow> (None, s)
      | p # args \<Rightarrow>
          (let cmd = str_upper p in
           if cmd = ''TEST'' then cmd_test e args s
           else if cmd = ''DEF_VAR'' then cmd_def_var e args s
           else if cmd = ''CONFIG'' then cmd_config e args s
           else if cmd = ''POWER_ON'' then cmd_power_on e args s
           else if cmd = ''POWER_OFF'' then cmd_power_off e args s
           else if cmd = ''POWER_CYCLE'' then cmd_power_cycle e args s
           else if cmd = ''RES_SET'' then cmd_res_set e args s
           else if cmd = ''RES_OPEN'' then cmd_res_open e args s
           else if cmd = ''RES_CLOSE'' then cmd_res_close e args s
           else if cmd = ''SCREENSHOT'' then cmd_screenshot e args s
           else if cmd = ''WAIT'' then cmd_wait e args s
           else if cmd = ''READ'' then cmd_read e args s
           else if cmd = ''SET_VAR'' then cmd_set_var e args s
           else if cmd = ''CHECK_RANGE'' then cmd_check_range e args s
           else if cmd = ''CHECK_DIFF'' then cmd_check_diff e args s
           else (None, error (''unknown command: '' @ cmd) s)))"

text \<open>What \<^verbatim>\<open>generate_report\<close> writes: the counts, the overall verdict and one row per case.\<close>

record report =
  rep_total :: nat
  rep_passed :: nat
  rep_failed :: nat
  rep_overall :: verdict
  rep_rows :: "test_data list"

text \<open>
  \<^verbatim>\<open>not in\<close> compares dictionaries by their contents; \<open>None\<close> is the early return that
  writes no file.
\<close>

definition generate_report :: "state \<Rightarrow> state \<times> report option" where
  "generate_report s =
     (let s1 = (case current_test_data s of
                  None \<Rightarrow> s
                | Some d \<Rightarrow>
                    if d \<notin> set (test_results s) then s\<lparr>test_results := test_results s @ [d]\<rparr>
                    else s);
          total = length (test_results s1);
          passed = length (filter (\<lambda>t. tc_result t = PASS) (test_results s1));
          failed = total - passed
      in if test_results s1 = [] then (s1, None)
         else (s1, Some \<lparr>rep_total = total, rep_passed = passed, rep_failed = failed,
                          rep_overall = (if failed = 0 then PASS else FAIL),
                          rep_rows = test_results s1\<rparr>))"

text \<open>The \<^verbatim>\<open>for\<close> loop of \<^verbatim>\<open>run\<close>: it stops at the first exception that escapes a line.\<close>

fun run_lines :: "env \<Rightarrow> string list \<Rightarrow> state \<Rightarrow> exn option \<times> state" where
  "run_lines e [] s = (None, s)"
| "run_lines e (l # ls) s =
     (let line = strip l in
      if line = [] \<or> startswith line ''#'' then run_lines e ls s
      else (case execute_line e line s of
              (None, s1) \<Rightarrow> run_lines e ls s1
            | (Some x, s1) \<Rightarrow> (Some x, s1)))"

text \<open>
  The sequence file: absent, present but not readable (\<^verbatim>\<open>open\<close> or \<^verbatim>\<open>readlines\<close>
  raises), or its lines.
\<close>

datatype script_file = Missing | Unreadable string | Script "string list"

text \<open>
  How the process ends: \<^verbatim>\<open>run\<close> returns (the file is missing), \<^verbatim>\<open>sys.exit(n)\<close>, or
  an exception leaves an \<^verbatim>\<open>except\<close> clause of \<^verbatim>\<open>run\<close>.
\<close>

datatype process_end = Returned | Exit int | Uncaught exn

record run_result =
  final_state :: state
  ending :: process_end
  report_file :: "report option"

text \<open>The two \<^verbatim>\<open>except\<close> clauses of \<^verbatim>\<open>run\<close>: power off, report, exit.\<close>

definition abnormal_exit :: "env \<Rightarrow> exn \<Rightarrow> state \<Rightarrow> run_result" where
  "abnormal_exit e x s =
     (case cmd_power_off e [] s of
        (Some y, s1) \<Rightarrow> \<lparr>final_state = s1, ending = Uncaught y, report_file = None\<rparr>
      | (None, s1) \<Rightarrow>
          (case generate_report s1 of
             (s2, rep) \<Rightarrow>
               \<lparr>final_state = s2,
                ending = Exit (if x = KeyboardInterrupt then 130 else 1),
                report_file = rep\<rparr>))"

definition run :: "env \<Rightarrow> script_file \<Rightarrow> run_result" where
  "run e file =
     (case file of
        Missing \<Rightarrow> \<lparr>final_state = init, ending = Returned, report_file = None\<rparr>
      | Unreadable m \<Rightarrow> abnormal_exit e (OSError m) init
      | Script lines \<Rightarrow>
          (case run_lines e lines init of
             (Some x, s) \<Rightarrow> abnormal_exit e x s
           | (None, s) \<Rightarrow>
               (case generate_report s of
                  (s1, rep) \<Rightarrow>
                    \<lparr>final_state = s1,
                     ending = Exit (if failed_tests s1 \<noteq> [] then 1 else 0),
                     report_file = rep\<rparr>)))"

subsection \<open>A concrete environment\<close>

text \<open>
  Decimal literals, a part of what the builtin \<^verbatim>\<open>float\<close> accepts: an optional sign, digits
  and an optional fraction. It serves the concrete runs below; the general theorems
  hold for every \<open>pyfloat\<close>.
\<close>

definition digit_val :: "char \<Rightarrow> nat option" where
  "digit_val c = map_of (zip ''0123456789'' [0, 1, 2, 3, 4, 5, 6, 7, 8, 9]) c"

fun digits_val :: "nat \<Rightarrow> string \<Rightarrow> nat option" where
  "digits_val acc [] = Some acc"
| "digits_val acc (c # cs) =
     (case digit_val c of None \<Rightarrow> None | Some d \<Rightarrow> digits_val (10 * acc + d) cs)"

definition float_lit :: "string \<Rightarrow> real option" where
  "float_lit s0 =
     (let s = strip s0;
          neg = startswith s ''-'';
          u = (if neg \<or> startswith s ''+'' then drop 1 s else s);
          ip = takeWhile (\<lambda>c. c \<noteq> CHR ''.'') u;
          fp = drop (Suc (length ip)) u
      in if ip = [] \<and> fp = [] then None
         else (case (digits_val 0 ip, digits_val 0 fp) of
                 (Some i, Some f) \<Rightarrow>
                   Some ((if neg then - 1 else 1) * (real i + real f / 10 ^ length fp))
               | _ \<Rightarrow> None))"

text \<open>
  An environment in which every subprocess exits with status 0 and prints \<open>out\<close>, and
  nothing is interrupted.
\<close>

definition quiet_env :: "string \<Rightarrow> env" where
  "quiet_env out =
     \<lparr>pyfloat = float_lit, fmt4 = (\<lambda>x. ''<float>''),
      tool = (\<lambda>n argv. Exited 0 out ''''), sleep = (\<lambda>n d. False),
      hms = (\<lambda>n. ''000000''), python_exe = ''python''\<rparr>"


section \<open>Notions used in the statements\<close>

text \<open>
  \<open>frame s s'\<close>: from \<open>s\<close> to \<open>s'\<close> the finalized list and the identity of the open case
  stay, a verdict FAIL stays, a new verdict FAIL comes with an entry in the list of
  failures, and that list only grows, by entries that name the current case.
\<close>

definition frame :: "state \<Rightarrow> state \<Rightarrow> bool" where
  "frame s s' \<longleftrightarrow>
     test_results s' = test_results s \<and> current_test_id s' = current_test_id s
     \<and> current_test_title s' = current_test_title s
     \<and> (\<exists>fs. failed_tests s' = failed_tests s @ fs
              \<and> set fs \<subseteq> {current_test_id s @ '' ('' @ current_test_title s @ '')''})
     \<and> rel_option (\<lambda>d d'. tc_id d' = tc_id d \<and> tc_title d' = tc_title d
                     \<and> (tc_result d = FAIL \<longrightarrow> tc_result d' = FAIL)
                     \<and> (tc_result d' = FAIL \<longrightarrow> tc_result d = FAIL \<or> failed_tests s' \<noteq> []))
          (current_test_data s) (current_test_data s')"

text \<open>The lines that the run loop skips, and the keyword and arguments of the others.\<close>

definition skipped :: "string \<Rightarrow> bool" where
  "skipped l \<longleftrightarrow> strip l = [] \<or> startswith (strip l) ''#''"

definition command_of :: "string \<Rightarrow> string" where
  "command_of l = (case split (strip l) of [] \<Rightarrow> [] | p # args \<Rightarrow> str_upper p)"

definition args_of :: "string \<Rightarrow> string list" where
  "args_of l = (case split (strip l) of [] \<Rightarrow> [] | p # args \<Rightarrow> args)"

definition is_command :: "string \<Rightarrow> string \<Rightarrow> bool" where
  "is_command k l \<longleftrightarrow> \<not> skipped l \<and> command_of l = k"

text \<open>The finalized cases followed by the open one.\<close>

definition cases_of :: "state \<Rightarrow> test_data list" where
  "cases_of s = test_results s @ (case current_test_data s of None \<Rightarrow> [] | Some d \<Rightarrow> [d])"

text \<open>The identifier and title that a TEST line declares.\<close>

definition declared_case :: "string \<Rightarrow> (string \<times> string) option" where
  "declared_case l =
     (case args_of l of [] \<Rightarrow> None | a # as \<Rightarrow> Some (a, strip_quotes (join '' '' as)))"

definition declared :: "string list \<Rightarrow> (string \<times> string) option list" where
  "declared ls = map declared_case (filter (is_command ''TEST'') ls)"

definition key_of :: "test_data \<Rightarrow> (string \<times> string) option" where
  "key_of d = Some (tc_id d, tc_title d)"

text \<open>An open case that has failed.\<close>

definition failed_case :: test_data where
  "failed_case = \<lparr>tc_id = ''T1'', tc_title = ''t'', tc_result = FAIL, tc_expected = [],
                   tc_actual = [], tc_note = ''earlier failure; ''\<rparr>"


text \<open>
  An environment in which the operator interrupts the first blocking call; every
  later subprocess exits with status 0 and prints nothing.
\<close>

definition interrupted_env :: env where
  "interrupted_env =
     (quiet_env '''')\<lparr>tool := (\<lambda>n argv. if n = 0 then Interrupted else Exited 0 '''' '''')\<rparr>"


section \<open>What each command leaves alone\<close>

lemma frame_refl: "frame s s"
  by (cases "current_test_data s") (simp_all add: frame_def)

lemma frame_trans: "frame s t \<Longrightarrow> frame t u \<Longrightarrow> frame s u"
  unfolding frame_def
  by (cases "current_test_data s"; cases "current_test_data t"; cases "current_test_data u") auto

lemma error_failed_tests: "failed_tests (error msg s) \<noteq> []"
  by (auto simp: error_def Let_def split: option.splits)

lemma error_unchanged:
  "variables (error msg s) = variables s" "config (error msg s) = config s"
  "test_results (error msg s) = test_results s" "clock (error msg s) = clock s"
  "current_test_id (error msg s) = current_test_id s"
  "current_test_title (error msg s) = current_test_title s"
  by (simp_all add: error_def Let_def split: option.splits)

lemma error_current:
  "current_test_data (error msg s) =
     map_option (\<lambda>d. d\<lparr>tc_result := FAIL,
                       tc_note := (if \<not> contains msg (tc_note d) then tc_note d @ msg @ ''; ''
                                   else tc_note d)\<rparr>) (current_test_data s)"
  by (simp add: error_def Let_def split: option.splits)

lemma error_failed_tests_eq:
  "failed_tests (error msg s) =
     (if current_test_id s \<notin> set (failed_tests s)
      then failed_tests s @ [current_test_id s @ '' ('' @ current_test_title s @ '')'']
      else failed_tests s)"
  by (simp add: error_def Let_def split: option.splits)

lemma frame_error: "frame s (error msg s)"
  by (cases "current_test_data s")
     (auto simp: frame_def error_unchanged error_current error_failed_tests error_failed_tests_eq)

lemma frame_clock: "frame s (s\<lparr>clock := n\<rparr>)"
  by (cases "current_test_data s") (simp_all add: frame_def)

lemma frame_variables: "frame s (s\<lparr>variables := m\<rparr>)"
  by (cases "current_test_data s") (simp_all add: frame_def)

lemma frame_config: "frame s (s\<lparr>config := m\<rparr>)"
  by (cases "current_test_data s") (simp_all add: frame_def)

lemma frame_run_external_tool: "run_external_tool e cmd desc s = (r, s') \<Longrightarrow> frame s s'"
  by (auto simp: run_external_tool_def Let_def split: outcome.splits if_splits
      intro: frame_trans [OF frame_clock frame_error] frame_clock)

lemma frame_discard_tool: "discard (run_external_tool e cmd desc s) = (r, s') \<Longrightarrow> frame s s'"
  by (cases "run_external_tool e cmd desc s")
     (auto simp: discard_def split: sum.splits dest: frame_run_external_tool)

lemma frame_py_sleep: "py_sleep e d s = (r, s') \<Longrightarrow> frame s s'"
  by (auto simp: py_sleep_def split: if_splits intro: frame_clock frame_refl)

lemma frame_cmd_def_var: "cmd_def_var e args s = (r, s') \<Longrightarrow> frame s s'"
  by (auto simp: cmd_def_var_def Let_def split: if_splits sum.splits
      intro: frame_error frame_variables frame_refl)

lemma frame_cmd_config: "cmd_config e args s = (r, s') \<Longrightarrow> frame s s'"
  by (auto simp: cmd_config_def split: if_splits intro: frame_error frame_config)

lemma frame_cmd_power_on: "cmd_power_on e args s = (r, s') \<Longrightarrow> frame s s'"
  unfolding cmd_power_on_def Let_def by (rule frame_discard_tool)

lemma frame_cmd_power_off: "cmd_power_off e args s = (r, s') \<Longrightarrow> frame s s'"
  unfolding cmd_power_off_def Let_def by (rule frame_discard_tool)

lemma frame_cmd_power_cycle: "cmd_power_cycle e args s = (r, s') \<Longrightarrow> frame s s'"
  unfolding cmd_power_cycle_def Let_def
  by (auto split: prod.splits option.splits
      dest!: frame_cmd_power_off frame_py_sleep frame_discard_tool intro: frame_trans)

lemma frame_cmd_res_set: "cmd_res_set e args s = (r, s') \<Longrightarrow> frame s s'"
  unfolding cmd_res_set_def Let_def
  by (auto split: sum.splits dest: frame_discard_tool intro: frame_refl)

lemma frame_cmd_res_open: "cmd_res_open e args s = (r, s') \<Longrightarrow> frame s s'"
  unfolding cmd_res_open_def Let_def by (rule frame_discard_tool)

lemma frame_cmd_res_close: "cmd_res_close e args s = (r, s') \<Longrightarrow> frame s s'"
  unfolding cmd_res_close_def Let_def by (rule frame_discard_tool)

lemma frame_note: "current_test_data s = Some d \<Longrightarrow> frame s (s\<lparr>current_test_data := Some (d\<lparr>tc_note := n\<rparr>)\<rparr>)"
  by (simp add: frame_def)

lemma frame_rows:
  "current_test_data s = Some d \<Longrightarrow>
   frame s (s\<lparr>current_test_data := Some (d\<lparr>tc_expected := xs, tc_actual := ys\<rparr>)\<rparr>)"
  by (simp add: frame_def)

lemma frame_cmd_screenshot: "cmd_screenshot e args s = (r, s') \<Longrightarrow> frame s s'"
  unfolding cmd_screenshot_def Let_def
  by (auto split: prod.splits sum.splits option.splits
      dest!: frame_run_external_tool intro: frame_trans [OF _ frame_note])

lemma frame_cmd_wait: "cmd_wait e args s = (r, s') \<Longrightarrow> frame s s'"
  unfolding cmd_wait_def
  by (auto split: sum.splits dest: frame_py_sleep intro: frame_refl)

lemma frame_cmd_read: "cmd_read e args s = (r, s') \<Longrightarrow> frame s s'"
  unfolding cmd_read_def Let_def
  by (auto split: if_splits prod.splits sum.splits option.splits
      dest!: frame_run_external_tool
      intro: frame_error frame_trans [OF _ frame_error] frame_trans [OF _ frame_variables])

lemma frame_cmd_set_var: "cmd_set_var e args s = (r, s') \<Longrightarrow> frame s s'"
  unfolding cmd_set_var_def Let_def
  by (auto split: if_splits sum.splits intro: frame_error frame_variables frame_refl)

lemma frame_cmd_check_range: "cmd_check_range e args s = (r, s') \<Longrightarrow> frame s s'"
  unfolding cmd_check_range_def Let_def
  by (auto split: if_splits sum.splits option.splits prod.splits
      intro: frame_error frame_refl frame_rows frame_trans [OF frame_rows frame_error])

lemma frame_cmd_check_diff: "cmd_check_diff e args s = (r, s') \<Longrightarrow> frame s s'"
  unfolding cmd_check_diff_def Let_def
  by (auto split: if_splits sum.splits option.splits prod.splits
      intro: frame_error frame_refl frame_rows frame_trans [OF frame_rows frame_error])

section \<open>The dispatcher and the run loop\<close>

lemma run_lines_skipped: "skipped l \<Longrightarrow> run_lines e (l # ls) s = run_lines e ls s"
  by (simp add: skipped_def Let_def)

lemma run_lines_command:
  "\<not> skipped l \<Longrightarrow>
   run_lines e (l # ls) s =
     (case execute_line e (strip l) s of
        (None, s1) \<Rightarrow> run_lines e ls s1
      | (Some x, s1) \<Rightarrow> (Some x, s1))"
  by (simp add: skipped_def Let_def)

lemma execute_line_test:
  "command_of l = ''TEST'' \<Longrightarrow> execute_line e (strip l) s = cmd_test e (args_of l) s"
  by (auto simp: execute_line_def command_of_def args_of_def Let_def split: list.splits)

lemma frame_execute_line:
  "command_of l \<noteq> ''TEST'' \<Longrightarrow> execute_line e (strip l) s = (r, s') \<Longrightarrow> frame s s'"
  unfolding execute_line_def command_of_def Let_def
  by (auto split: list.splits if_splits
      intro: frame_refl frame_error
      dest: frame_cmd_def_var frame_cmd_config frame_cmd_power_on frame_cmd_power_off
        frame_cmd_power_cycle frame_cmd_res_set frame_cmd_res_open frame_cmd_res_close
        frame_cmd_screenshot frame_cmd_wait frame_cmd_read frame_cmd_set_var
        frame_cmd_check_range frame_cmd_check_diff)

lemma frame_run_lines:
  "\<forall>l\<in>set ls. \<not> is_command ''TEST'' l \<Longrightarrow> run_lines e ls s = (r, s') \<Longrightarrow> frame s s'"
proof (induction ls arbitrary: s)
  case Nil
  then show ?case by (simp add: frame_refl)
next
  case (Cons l ls)
  show ?case
  proof (cases "skipped l")
    case True
    with Cons.prems have "run_lines e ls s = (r, s')"
      by (simp add: run_lines_skipped del: run_lines.simps)
    with Cons.IH Cons.prems show ?thesis by simp
  next
    case False
    with Cons.prems have cmd: "command_of l \<noteq> ''TEST''" by (simp add: is_command_def)
    obtain r1 s1 where ex: "execute_line e (strip l) s = (r1, s1)" by (cases "execute_line e (strip l) s")
    then have f1: "frame s s1" using cmd by (rule frame_execute_line [rotated])
    show ?thesis
    proof (cases r1)
      case None
      with ex False Cons.prems have "run_lines e ls s1 = (r, s')" by (simp add: run_lines_command del: run_lines.simps)
      with Cons.IH Cons.prems have "frame s1 s'" by simp
      with f1 show ?thesis by (rule frame_trans)
    next
      case (Some x)
      with ex False Cons.prems have "s' = s1" by (simp add: run_lines_command del: run_lines.simps)
      with f1 show ?thesis by simp
    qed
  qed
qed

lemma cmd_test_effect:
  "cmd_test e (a # as) s = (r, s') \<Longrightarrow>
   r = None \<and> test_results s' = cases_of s
   \<and> current_test_data s' = Some \<lparr>tc_id = a, tc_title = strip_quotes (join '' '' as),
        tc_result = PASS, tc_expected = [], tc_actual = [], tc_note = ''''\<rparr>
   \<and> failed_tests s' = failed_tests s \<and> variables s' = variables s"
  by (auto simp: cmd_test_def index_def cases_of_def Let_def split: option.splits)

lemma cmd_test_no_args:
  "cmd_test e [] s = (Some IndexError, s\<lparr>test_results := cases_of s\<rparr>)"
  by (auto simp: cmd_test_def index_def cases_of_def Let_def split: option.splits)

lemma execute_line_grows:
  "execute_line e (strip l) s = (r, s') \<Longrightarrow>
   \<exists>ds. test_results s' = test_results s @ ds \<and> length ds \<le> 1"
proof (cases "command_of l = ''TEST''")
  case True
  assume ex: "execute_line e (strip l) s = (r, s')"
  with True have t: "cmd_test e (args_of l) s = (r, s')" by (simp add: execute_line_test)
  show ?thesis
  proof (cases "args_of l")
    case Nil
    with t show ?thesis by (auto simp: cmd_test_no_args cases_of_def split: option.splits)
  next
    case (Cons a as)
    with t show ?thesis by (auto dest!: cmd_test_effect simp: cases_of_def split: option.splits)
  qed
next
  case False
  assume "execute_line e (strip l) s = (r, s')"
  with False have "frame s s'" by (rule frame_execute_line)
  then show ?thesis by (simp add: frame_def)
qed



lemma generate_report_effect:
  "generate_report s = (s', rep) \<Longrightarrow>
   failed_tests s' = failed_tests s \<and> variables s' = variables s
   \<and> test_results s' =
        (case current_test_data s of
           None \<Rightarrow> test_results s
         | Some d \<Rightarrow> if d \<in> set (test_results s) then test_results s else test_results s @ [d])
   \<and> (rep = None \<longleftrightarrow> test_results s' = [])
   \<and> (\<forall>p. rep = Some p \<longrightarrow> rep_rows p = test_results s')"
  by (auto simp: generate_report_def Let_def split: option.splits if_splits)

subsection \<open>Evaluation on concrete scripts\<close>

lemmas string_eval = strip_def isspace_def startswith_def endswith_def split_def
  str_lower_def lower_char_def str_upper_def upper_char_def

lemmas float_eval = to_float_def quiet_env_def float_lit_def digit_val_def




lemmas handler_eval = execute_line_def cmd_test_def cmd_def_var_def cmd_read_def cmd_res_set_def
  cmd_wait_def cmd_power_off_def cmd_set_var_def cmd_check_diff_def cmd_check_range_def
  check_diff_values_def check_range_values_def
  run_external_tool_def discard_def index_def bind_exn_def config_args_def error_def
  generate_report_def abnormal_exit_def run_def init_def parse_value_def strip_quotes_def Let_def

subsection \<open>The run loop and the process\<close>


lemma run_completes:
  "run_lines e ls init = (None, s) \<Longrightarrow>
   run e (Script ls) = \<lparr>final_state = fst (generate_report s),
                         ending = Exit (if failed_tests s \<noteq> [] then 1 else 0),
                         report_file = snd (generate_report s)\<rparr>"
  by (cases "generate_report s") (auto simp: run_def dest: generate_report_effect)

lemma run_aborts:
  "run_lines e ls init = (Some x, s) \<Longrightarrow> run e (Script ls) = abnormal_exit e x s"
  by (simp add: run_def)

subsection \<open>The cases that a script declares\<close>

lemma split_acc_nonempty: "w \<in> set (split_acc a s) \<Longrightarrow> w \<noteq> []"
  by (induction s arbitrary: a) (auto split: if_splits)

lemma split_nonempty: "w \<in> set (split s) \<Longrightarrow> w \<noteq> []"
  unfolding split_def by (rule split_acc_nonempty)

lemma declared_case_id: "declared_case l = Some (a, t) \<Longrightarrow> a \<noteq> []"
proof -
  assume d: "declared_case l = Some (a, t)"
  then obtain as where "args_of l = a # as"
    by (auto simp: declared_case_def split: list.splits)
  then have "a \<in> set (split (strip l))"
    by (auto simp: args_of_def split: list.splits)
  then show ?thesis by (rule split_nonempty)
qed

lemma frame_cases: "frame s s' \<Longrightarrow> map key_of (cases_of s') = map key_of (cases_of s)"
  by (cases "current_test_data s"; cases "current_test_data s'")
     (auto simp: frame_def cases_of_def key_of_def)

lemma cases_execute_line:
  assumes "execute_line e (strip l) s = (None, s')" and "\<not> skipped l"
  shows "map key_of (cases_of s') = map key_of (cases_of s) @ declared [l]"
proof (cases "command_of l = ''TEST''")
  case True
  with assms have t: "cmd_test e (args_of l) s = (None, s')" by (simp add: execute_line_test)
  then obtain a as where args: "args_of l = a # as"
    by (cases "args_of l") (auto simp: cmd_test_no_args)
  with t have "cases_of s' = cases_of s @ [\<lparr>tc_id = a, tc_title = strip_quotes (join '' '' as),
        tc_result = PASS, tc_expected = [], tc_actual = [], tc_note = ''''\<rparr>]"
    by (auto dest!: cmd_test_effect simp: cases_of_def)
  with True assms(2) args show ?thesis
    by (simp add: declared_def is_command_def declared_case_def key_of_def)
next
  case False
  from False assms(1) have "frame s s'" by (rule frame_execute_line)
  with False show ?thesis by (simp add: frame_cases declared_def is_command_def)
qed

lemma declared_Cons: "declared (l # ls) = declared [l] @ declared ls"
  by (simp add: declared_def)

lemma cases_run_lines:
  "run_lines e ls s = (None, s') \<Longrightarrow>
   map key_of (cases_of s') = map key_of (cases_of s) @ declared ls"
proof (induction ls arbitrary: s)
  case Nil
  then show ?case by (simp add: declared_def)
next
  case (Cons l ls)
  show ?case
  proof (cases "skipped l")
    case True
    with Cons.prems have "run_lines e ls s = (None, s')"
      by (simp add: run_lines_skipped del: run_lines.simps)
    with Cons.IH True show ?thesis by (simp add: declared_def is_command_def)
  next
    case False
    obtain r1 s1 where ex: "execute_line e (strip l) s = (r1, s1)"
      by (cases "execute_line e (strip l) s")
    with False Cons.prems have r1: "r1 = None" and rest: "run_lines e ls s1 = (None, s')"
      by (auto simp: run_lines_command simp del: run_lines.simps split: option.splits)
    from ex r1 False have "map key_of (cases_of s1) = map key_of (cases_of s) @ declared [l]"
      by (simp add: cases_execute_line)
    moreover from rest have "map key_of (cases_of s') = map key_of (cases_of s1) @ declared ls"
      by (rule Cons.IH)
    ultimately show ?thesis by (simp add: declared_Cons [of l ls])
  qed
qed

text \<open>
  The comparison by contents in \<^verbatim>\<open>generate_report\<close>: a last case that equals an earlier
  one is not appended.
\<close>

lemma equal_last_case_dropped:
  "fst (run_lines (quiet_env '''') [''TEST A x'', ''TEST A x''] init) = None
   \<and> length (test_results (final_state (run (quiet_env '''') (Script [''TEST A x'', ''TEST A x''])))) = 1"
  by (simp add: handler_eval string_eval)

subsection \<open>No case fails without a listed failure\<close>

lemma frame_all_pass:
  assumes "frame s s'"
    and "failed_tests s = [] \<longrightarrow> (\<forall>d\<in>set (cases_of s). tc_result d = PASS)"
  shows "failed_tests s' = [] \<longrightarrow> (\<forall>d\<in>set (cases_of s'). tc_result d = PASS)"
proof
  assume empty: "failed_tests s' = []"
  with assms(1) have "failed_tests s = []" by (auto simp: frame_def)
  with assms(2) have old: "\<forall>d\<in>set (cases_of s). tc_result d = PASS" by simp
  show "\<forall>d\<in>set (cases_of s'). tc_result d = PASS"
  proof
    fix d' assume d': "d' \<in> set (cases_of s')"
    show "tc_result d' = PASS"
    proof (cases "d' \<in> set (test_results s')")
      case True
      with assms(1) old show ?thesis by (simp add: frame_def cases_of_def)
    next
      case False
      with d' have cur: "current_test_data s' = Some d'"
        by (auto simp: cases_of_def split: option.splits)
      with assms(1) obtain d where "current_test_data s = Some d"
        and "tc_result d' = FAIL \<longrightarrow> tc_result d = FAIL \<or> failed_tests s' \<noteq> []"
        by (cases "current_test_data s") (auto simp: frame_def)
      with old empty have "tc_result d' \<noteq> FAIL" by (auto simp: cases_of_def)
      then show ?thesis by (cases "tc_result d'") simp_all
    qed
  qed
qed

lemma all_pass_execute_line:
  assumes "execute_line e (strip l) s = (r, s')"
    and "failed_tests s = [] \<longrightarrow> (\<forall>d\<in>set (cases_of s). tc_result d = PASS)"
  shows "failed_tests s' = [] \<longrightarrow> (\<forall>d\<in>set (cases_of s'). tc_result d = PASS)"
proof (cases "command_of l = ''TEST''")
  case True
  with assms(1) have t: "cmd_test e (args_of l) s = (r, s')" by (simp add: execute_line_test)
  show ?thesis
  proof (cases "args_of l")
    case Nil
    with t assms(2) show ?thesis
      by (auto simp: cmd_test_no_args cases_of_def split: option.splits)
  next
    case (Cons a as)
    with t assms(2) show ?thesis
      by (auto dest!: cmd_test_effect simp: cases_of_def split: option.splits)
  qed
next
  case False
  from False assms(1) have "frame s s'" by (rule frame_execute_line)
  then show ?thesis using assms(2) by (rule frame_all_pass)
qed

lemma all_pass_run_lines:
  "run_lines e ls s = (r, s') \<Longrightarrow>
   failed_tests s = [] \<longrightarrow> (\<forall>d\<in>set (cases_of s). tc_result d = PASS) \<Longrightarrow>
   failed_tests s' = [] \<longrightarrow> (\<forall>d\<in>set (cases_of s'). tc_result d = PASS)"
proof (induction ls arbitrary: s)
  case Nil
  then show ?case by simp
next
  case (Cons l ls)
  show ?case
  proof (cases "skipped l")
    case True
    with Cons.prems(1) have "run_lines e ls s = (r, s')"
      by (simp add: run_lines_skipped del: run_lines.simps)
    then show ?thesis using Cons.prems(2) by (rule Cons.IH)
  next
    case False
    obtain r1 s1 where ex: "execute_line e (strip l) s = (r1, s1)"
      by (cases "execute_line e (strip l) s")
    then have inv1: "failed_tests s1 = [] \<longrightarrow> (\<forall>d\<in>set (cases_of s1). tc_result d = PASS)"
      using Cons.prems(2) by (rule all_pass_execute_line)
    show ?thesis
    proof (cases r1)
      case None
      with ex False Cons.prems(1) have "run_lines e ls s1 = (r, s')"
        by (simp add: run_lines_command del: run_lines.simps)
      then show ?thesis using inv1 by (rule Cons.IH)
    next
      case (Some x)
      with ex False Cons.prems(1) have "s' = s1"
        by (simp add: run_lines_command del: run_lines.simps)
      with inv1 show ?thesis by simp
    qed
  qed
qed

lemma generate_report_subset:
  "set (test_results (fst (generate_report s))) \<subseteq> set (cases_of s)"
  by (cases "generate_report s")
     (auto dest!: generate_report_effect simp: cases_of_def split: option.splits if_splits)

subsection \<open>Undefined references\<close>









subsection \<open>The names in the variable store\<close>



















section \<open>The value parser\<close>

text \<open>
  Claim C4. The value parser resolves a token by a fixed precedence: a variable
  reference first, then the percent suffix, then the milli-ampere marker, then the
  ampere marker, then a plain float. A token ending in \<open>%\<close> yields its number divided by
  100, a token containing \<open>mA\<close> in any letter case its number divided by 1000. Where
  the builtin float reads \<open>2560\<close> and \<open>5\<close> as those numbers, \<open>2560mA\<close> parses to 2.56
  and \<open>5%\<close> to 0.05.
\<close>

theorem parse_value_precedence:
  "(startswith (strip tok) ''$'' \<longrightarrow>
      parse_value e s tok =
        (case variables s (strip tok) of
           Some x \<Rightarrow> Inr x
         | None \<Rightarrow> Inl (undefined_variable (strip tok))))
   \<and> (\<not> startswith (strip tok) ''$'' \<and> endswith (strip tok) ''%'' \<longrightarrow>
      parse_value e s tok = map_sum id (\<lambda>x. x / 100) (to_float e (butlast (strip tok))))
   \<and> (\<not> startswith (strip tok) ''$'' \<and> \<not> endswith (strip tok) ''%''
        \<and> contains ''ma'' (str_lower (strip tok)) \<longrightarrow>
      parse_value e s tok =
        map_sum id (\<lambda>x. x / 1000) (to_float e (remove_all ''ma'' (str_lower (strip tok)))))
   \<and> (\<not> startswith (strip tok) ''$'' \<and> \<not> endswith (strip tok) ''%''
        \<and> \<not> contains ''ma'' (str_lower (strip tok)) \<and> contains ''a'' (str_lower (strip tok)) \<longrightarrow>
      parse_value e s tok = to_float e (remove_all ''a'' (str_lower (strip tok))))
   \<and> (\<not> startswith (strip tok) ''$'' \<and> \<not> endswith (strip tok) ''%''
        \<and> \<not> contains ''a'' (str_lower (strip tok)) \<longrightarrow>
      parse_value e s tok = to_float e (strip tok))
   \<and> (pyfloat e ''2560'' = Some 2560 \<longrightarrow> parse_value e s ''2560mA'' = Inr 2.56)
   \<and> (pyfloat e ''5'' = Some 5 \<longrightarrow> parse_value e s ''5%'' = Inr 0.05)"
proof -
  have hd_a: "take (Suc 0) t = ''a'' \<Longrightarrow> contains ''a'' t" for t
    by (cases t) (auto simp: startswith_def)
  have ma_a: "contains ''ma'' t \<Longrightarrow> contains ''a'' t" for t
    by (induction t) (auto simp: startswith_def hd_a)
  have general: "parse_value e s tok =
      (if startswith (strip tok) ''$'' then
         (case variables s (strip tok) of Some x \<Rightarrow> Inr x | None \<Rightarrow> Inl (undefined_variable (strip tok)))
       else if endswith (strip tok) ''%'' then map_sum id (\<lambda>x. x / 100) (to_float e (butlast (strip tok)))
       else if contains ''ma'' (str_lower (strip tok)) then
         map_sum id (\<lambda>x. x / 1000) (to_float e (remove_all ''ma'' (str_lower (strip tok))))
       else if contains ''a'' (str_lower (strip tok)) then to_float e (remove_all ''a'' (str_lower (strip tok)))
       else to_float e (strip tok))"
    by (simp add: parse_value_def Let_def split: sum.splits)
  have ex1: "pyfloat e ''2560'' = Some 2560 \<Longrightarrow> parse_value e s ''2560mA'' = Inr 2.56"
    by (simp add: parse_value_def strip_def isspace_def startswith_def endswith_def
        str_lower_def lower_char_def to_float_def)
  have ex2: "pyfloat e ''5'' = Some 5 \<Longrightarrow> parse_value e s ''5%'' = Inr 0.05"
    by (simp add: parse_value_def strip_def isspace_def startswith_def endswith_def to_float_def)
  show ?thesis
    using ma_a [of "str_lower (strip tok)"] ex1 ex2 by (simp add: general)
qed

theorem parse_value_precedence_witness:
  "parse_value (quiet_env '''') (init\<lparr>variables := [''$x%'' \<mapsto> 3]\<rparr>) ''$x%'' = Inr 3
   \<and> parse_value (quiet_env '''') init ''5mA%'' = Inl (ValueError (''could not convert string to float: '' @ [CHR 0x27] @ ''5mA'' @ [CHR 0x27]))
   \<and> parse_value (quiet_env '''') init ''250Ma'' = Inr 0.25
   \<and> parse_value (quiet_env '''') init '' 1.5A '' = Inr 1.5
   \<and> parse_value (quiet_env '''') init ''12'' = Inr 12
   \<and> parse_value (quiet_env '''') init ''2560mA'' = Inr 2.56
   \<and> parse_value (quiet_env '''') init ''5%'' = Inr 0.05"
proof -
  note ev = strip_def isspace_def startswith_def endswith_def str_lower_def lower_char_def
    to_float_def quiet_env_def float_lit_def digit_val_def init_def
  have "parse_value (quiet_env '''') (init\<lparr>variables := [''$x%'' \<mapsto> 3]\<rparr>) ''$x%'' = Inr 3"
    using parse_value_precedence [of "''$x%''" "quiet_env ''''" "init\<lparr>variables := [''$x%'' \<mapsto> 3]\<rparr>"]
    by (simp add: ev)
  moreover have "parse_value (quiet_env '''') init ''5mA%'' = Inl (ValueError (''could not convert string to float: '' @ [CHR 0x27] @ ''5mA'' @ [CHR 0x27]))"
    using parse_value_precedence [of "''5mA%''" "quiet_env ''''" init]
    by (simp add: ev)
  moreover have "parse_value (quiet_env '''') init ''250Ma'' = Inr 0.25"
    using parse_value_precedence [of "''250Ma''" "quiet_env ''''" init]
    by (simp add: ev)
  moreover have "parse_value (quiet_env '''') init '' 1.5A '' = Inr 1.5"
    using parse_value_precedence [of "'' 1.5A ''" "quiet_env ''''" init]
    by (simp add: ev)
  moreover have "parse_value (quiet_env '''') init ''12'' = Inr 12"
    using parse_value_precedence [of "''12''" "quiet_env ''''" init]
    by (simp add: ev)
  moreover have "parse_value (quiet_env '''') init ''2560mA'' = Inr 2.56"
    using parse_value_precedence [of "''''" "quiet_env ''''" init]
    by (simp add: ev)
  moreover have "parse_value (quiet_env '''') init ''5%'' = Inr 0.05"
    using parse_value_precedence [of "''''" "quiet_env ''''" init]
    by (simp add: ev)
  ultimately show ?thesis by blast
qed

section \<open>The verdict of the open case\<close>

text \<open>
  Claim C6. Between one TEST command and the next, or the end of the run, a case whose
  result is FAIL stays FAIL: whatever the commands that follow do, and whether they end
  normally or by an exception, the same case is still the open one and its result is
  still FAIL, and the finalized list is as it was. One case is open at a time: the
  next TEST command, with or without arguments, moves the open case as it is to the
  end of the finalized list, and no command changes the entries that the finalized
  list already has.
\<close>

theorem fail_never_reset:
  assumes "run_lines e ls s = (r, s')"
    and "\<forall>l\<in>set ls. \<not> is_command ''TEST'' l"
    and "current_test_data s = Some d"
    and "tc_result d = FAIL"
  shows "(\<exists>d'. current_test_data s' = Some d' \<and> tc_id d' = tc_id d \<and> tc_title d' = tc_title d
               \<and> tc_result d' = FAIL)
         \<and> test_results s' = test_results s
         \<and> test_results (snd (cmd_test e args s)) = test_results s @ [d]
         \<and> (\<exists>ds. test_results (snd (execute_line e (strip l) u)) = test_results u @ ds
                  \<and> length ds \<le> 1)"
proof -
  from assms(2,1) have "frame s s'" by (rule frame_run_lines)
  with assms(3,4) have open_case: "\<exists>d'. current_test_data s' = Some d' \<and> tc_id d' = tc_id d
      \<and> tc_title d' = tc_title d \<and> tc_result d' = FAIL"
    by (cases "current_test_data s'") (auto simp: frame_def)
  from \<open>frame s s'\<close> have fin: "test_results s' = test_results s" by (simp add: frame_def)
  from assms(3) have closes: "test_results (snd (cmd_test e args s)) = test_results s @ [d]"
    by (simp add: cmd_test_def Let_def split: sum.splits)
  have "\<exists>ds. test_results (snd (execute_line e (strip l) u)) = test_results u @ ds \<and> length ds \<le> 1"
    by (rule execute_line_grows [of e l u "fst (execute_line e (strip l) u)"]) simp
  with open_case fin closes show ?thesis by blast
qed

theorem fail_never_reset_witness:
  "\<not> is_command ''TEST'' ''CHECK_DIFF 1 1 0'' \<and> \<not> is_command ''TEST'' ''# comment''
   \<and> \<not> is_command ''TEST'' ''DEF_VAR $v 2''
   \<and> (\<exists>d'. current_test_data (snd (run_lines (quiet_env ''0.5'')
              [''CHECK_DIFF 1 1 0'', ''# comment'', ''DEF_VAR $v 2'']
              (init\<lparr>current_test_data := Some failed_case\<rparr>))) = Some d'
           \<and> tc_id d' = ''T1'' \<and> tc_result d' = FAIL)"
proof -
  let ?ls = "[''CHECK_DIFF 1 1 0'', ''# comment'', ''DEF_VAR $v 2'']"
  let ?s = "init\<lparr>current_test_data := Some failed_case\<rparr>"
  have no_test: "\<forall>l\<in>set ?ls. \<not> is_command ''TEST'' l"
    by (simp add: is_command_def skipped_def command_of_def strip_def isspace_def startswith_def
        split_def str_upper_def upper_char_def)
  have "run_lines (quiet_env ''0.5'') ?ls ?s =
          (fst (run_lines (quiet_env ''0.5'') ?ls ?s), snd (run_lines (quiet_env ''0.5'') ?ls ?s))"
    by simp
  moreover have "current_test_data ?s = Some failed_case" by simp
  moreover have "tc_result failed_case = FAIL" by (simp add: failed_case_def)
  ultimately have "\<exists>d'. current_test_data (snd (run_lines (quiet_env ''0.5'') ?ls ?s)) = Some d'
      \<and> tc_id d' = tc_id failed_case \<and> tc_title d' = tc_title failed_case \<and> tc_result d' = FAIL"
    using fail_never_reset [of "quiet_env ''0.5''" ?ls ?s _ _ failed_case] no_test by blast
  moreover have "tc_id failed_case = ''T1''" by (simp add: failed_case_def)
  ultimately show ?thesis using no_test by (auto simp del: run_lines.simps)
qed

section \<open>The assertions\<close>





section \<open>Reading from the oscilloscope\<close>

text \<open>
  Claim C8, at the input where the code departs from it. The script defines \<open>$v\<close>
  with the value 7, opens the case \<open>T1\<close> and reads channel 1 into \<open>$v\<close>. When the tool
  exits with status 0 and prints \<open>abc\<close>, the failure is listed and the case is FAIL.
  When the tool exits with status 0 and prints nothing, which is no number either, no
  failure is listed, the case stays PASS with an empty note, \<open>$v\<close> keeps the value 7
  and the process exits with status 0.
\<close>

theorem read_empty_output_unrecorded:
  "failed_tests (final_state (run (quiet_env ''abc'')
       (Script [''DEF_VAR $v 7'', ''TEST T1 t'', ''READ CH1 TO $v'']))) = [''T1 (t)'']
   \<and> map tc_result (test_results (final_state (run (quiet_env ''abc'')
       (Script [''DEF_VAR $v 7'', ''TEST T1 t'', ''READ CH1 TO $v''])))) = [FAIL]
   \<and> failed_tests (final_state (run (quiet_env '''')
       (Script [''DEF_VAR $v 7'', ''TEST T1 t'', ''READ CH1 TO $v'']))) = []
   \<and> test_results (final_state (run (quiet_env '''')
       (Script [''DEF_VAR $v 7'', ''TEST T1 t'', ''READ CH1 TO $v''])))
       = [\<lparr>tc_id = ''T1'', tc_title = ''t'', tc_result = PASS, tc_expected = [], tc_actual = [],
           tc_note = ''''\<rparr>]
   \<and> variables (final_state (run (quiet_env '''')
       (Script [''DEF_VAR $v 7'', ''TEST T1 t'', ''READ CH1 TO $v'']))) ''$v'' = Some 7
   \<and> ending (run (quiet_env '''')
       (Script [''DEF_VAR $v 7'', ''TEST T1 t'', ''READ CH1 TO $v''])) = Exit 0"
  by (simp add: handler_eval string_eval float_eval)

section \<open>Missing arguments\<close>

text \<open>
  Claim C9, at the input where the code departs from it. A TEST line without
  arguments raises IndexError out of the dispatcher: the run loop stops there, the
  line after it is not executed, no report is written and the process exits with
  status 1. RES\_SET and WAIT without arguments do the same. DEF\_VAR without arguments
  is recorded as a failure and the run goes on.
\<close>

theorem test_without_arguments_aborts:
  "run_lines (quiet_env '''') [''TEST'', ''TEST T2 second''] init = (Some IndexError, init)
   \<and> ending (run (quiet_env '''') (Script [''TEST'', ''TEST T2 second''])) = Exit 1
   \<and> report_file (run (quiet_env '''') (Script [''TEST'', ''TEST T2 second''])) = None
   \<and> test_results (final_state (run (quiet_env '''') (Script [''TEST'', ''TEST T2 second'']))) = []
   \<and> fst (run_lines (quiet_env '''') [''RES_SET'', ''TEST T2 second''] init) = Some IndexError
   \<and> fst (run_lines (quiet_env '''') [''WAIT'', ''TEST T2 second''] init) = Some IndexError
   \<and> fst (run_lines (quiet_env '''') [''DEF_VAR'', ''TEST T2 second''] init) = None
   \<and> failed_tests (snd (run_lines (quiet_env '''') [''DEF_VAR'', ''TEST T2 second''] init))
       = [''N/A ()'']
   \<and> map tc_id (cases_of (snd (run_lines (quiet_env '''') [''DEF_VAR'', ''TEST T2 second''] init)))
       = [''T2'']"
  by (simp add: handler_eval string_eval float_eval cases_of_def)

section \<open>Errors before the first case\<close>



section \<open>The finalized list\<close>

text \<open>
  Claim C2, as amended. Let a script with \<open>N\<close> TEST commands run to its end without an
  exception, and let the case that is open at the end differ in content from every
  case finalized before it. Then the finalized list at the end of the run has exactly
  \<open>N\<close> entries; they carry, in script order, the identifier and the title that the TEST
  lines declare; every identifier is non-empty (a title may be empty). Each TEST
  command with an argument appends exactly the case that was open, if any, to the
  finalized list and opens a new case with the result PASS.
\<close>

theorem finalized_in_script_order:
  assumes "run_lines e ls init = (None, s)"
    and "\<forall>d. current_test_data s = Some d \<longrightarrow> d \<notin> set (test_results s)"
  shows "map key_of (test_results (final_state (run e (Script ls)))) = declared ls
    \<and> length (test_results (final_state (run e (Script ls))))
        = length (filter (is_command ''TEST'') ls)
    \<and> (\<forall>d\<in>set (test_results (final_state (run e (Script ls)))). tc_id d \<noteq> [])
    \<and> test_results (snd (cmd_test e (a # as) u)) = cases_of u
    \<and> current_test_data (snd (cmd_test e (a # as) u))
        = Some \<lparr>tc_id = a, tc_title = strip_quotes (join '' '' as), tc_result = PASS,
                tc_expected = [], tc_actual = [], tc_note = ''''\<rparr>"
proof -
  let ?fin = "test_results (final_state (run e (Script ls)))"
  from assms(2) have "test_results (fst (generate_report s)) = cases_of s"
    by (cases "generate_report s")
       (auto dest!: generate_report_effect simp: cases_of_def split: option.splits)
  with assms(1) have fin: "?fin = cases_of s" by (simp add: run_completes)
  from assms(1) have "map key_of (cases_of s) = map key_of (cases_of init) @ declared ls"
    by (rule cases_run_lines)
  with fin have order: "map key_of ?fin = declared ls"
    by (simp add: cases_of_def init_def)
  then have "length (map key_of ?fin) = length (declared ls)" by simp
  then have count: "length ?fin = length (filter (is_command ''TEST'') ls)"
    by (simp add: declared_def)
  have ids: "\<forall>d\<in>set ?fin. tc_id d \<noteq> []"
  proof
    fix d assume "d \<in> set ?fin"
    then have "key_of d \<in> set (map key_of ?fin)" by simp
    with order have "key_of d \<in> set (declared ls)" by simp
    then obtain l where "declared_case l = Some (tc_id d, tc_title d)"
      by (auto simp: declared_def key_of_def)
    then show "tc_id d \<noteq> []" by (rule declared_case_id)
  qed
  have test: "test_results (snd (cmd_test e (a # as) u)) = cases_of u
    \<and> current_test_data (snd (cmd_test e (a # as) u))
        = Some \<lparr>tc_id = a, tc_title = strip_quotes (join '' '' as), tc_result = PASS,
                tc_expected = [], tc_actual = [], tc_note = ''''\<rparr>"
    using cmd_test_effect [of e a as u "fst (cmd_test e (a # as) u)" "snd (cmd_test e (a # as) u)"]
    by simp
  from order count ids test show ?thesis by blast
qed

theorem finalized_in_script_order_witness:
  "run_lines (quiet_env '''') [''TEST T1 first case'', ''BOGUS'', ''TEST T2''] init
     = (None, snd (run_lines (quiet_env '''') [''TEST T1 first case'', ''BOGUS'', ''TEST T2''] init))
   \<and> map key_of (test_results (final_state (run (quiet_env '''')
         (Script [''TEST T1 first case'', ''BOGUS'', ''TEST T2'']))))
       = [Some (''T1'', ''first case''), Some (''T2'', '''')]
   \<and> length (test_results (final_state (run (quiet_env '''')
         (Script [''TEST T1 first case'', ''BOGUS'', ''TEST T2''])))) = 2"
proof -
  let ?e = "quiet_env ''''"
  let ?ls = "[''TEST T1 first case'', ''BOGUS'', ''TEST T2'']"
  have run: "run_lines ?e ?ls init = (None, snd (run_lines ?e ?ls init))"
    by (simp add: handler_eval string_eval)
  have fresh: "\<forall>d. current_test_data (snd (run_lines ?e ?ls init)) = Some d
      \<longrightarrow> d \<notin> set (test_results (snd (run_lines ?e ?ls init)))"
    by (simp add: handler_eval string_eval)
  have decl: "declared ?ls = [Some (''T1'', ''first case''), Some (''T2'', '''')]"
    by (simp add: declared_def declared_case_def is_command_def skipped_def command_of_def
        args_of_def strip_quotes_def string_eval)
  have count: "length (filter (is_command ''TEST'') ?ls) = 2"
    by (simp add: is_command_def skipped_def command_of_def string_eval)
  from finalized_in_script_order [OF run fresh] decl count run show ?thesis
    by simp
qed

text \<open>
  The claim as it was stated fails: the script \<open>TEST T1\<close> runs to its end and its
  one finalized case has the empty title.
\<close>

theorem empty_title_counterexample:
  "fst (run_lines (quiet_env '''') [''TEST T1''] init) = None
   \<and> test_results (final_state (run (quiet_env '''') (Script [''TEST T1''])))
       = [\<lparr>tc_id = ''T1'', tc_title = '''', tc_result = PASS, tc_expected = [], tc_actual = [],
           tc_note = ''''\<rparr>]"
  by (simp add: handler_eval string_eval)

section \<open>The exit status\<close>

text \<open>
  Claim C3, as amended. When the script runs to its end, the process exits with status
  0 if no failure was listed, and then every finalized case has passed, and with status
  1 if a failure was listed. When an exception ends the run loop and the emergency
  power-off is not itself interrupted, the process exits with status 130 if the
  exception is the operator's interrupt and with status 1 otherwise, as it does when
  the script file cannot be read. So 0, 1 and 130 tell success, failure and interrupt
  apart, and a fatal error exits with the status of a failed run. An interrupt during
  the emergency power-off leaves \<^verbatim>\<open>run\<close> as an uncaught exception.
\<close>

theorem exit_status:
  "(run_lines e ls init = (None, s) \<longrightarrow>
      ending (run e (Script ls)) = Exit (if failed_tests s = [] then 0 else 1)
      \<and> (failed_tests s = [] \<longrightarrow>
           (\<forall>d\<in>set (test_results (final_state (run e (Script ls)))). tc_result d = PASS)))
   \<and> (run_lines e ls init = (Some x, s) \<and> fst (cmd_power_off e [] s) = None \<longrightarrow>
      ending (run e (Script ls)) = Exit (if x = KeyboardInterrupt then 130 else 1))
   \<and> (run_lines e ls init = (Some x, s) \<and> fst (cmd_power_off e [] s) = Some y \<longrightarrow>
      ending (run e (Script ls)) = Uncaught y)
   \<and> (fst (cmd_power_off e [] init) = None \<longrightarrow> ending (run e (Unreadable m)) = Exit 1)"
proof -
  have normal: "ending (run e (Script ls)) = Exit (if failed_tests s = [] then 0 else 1)
      \<and> (failed_tests s = [] \<longrightarrow>
           (\<forall>d\<in>set (test_results (final_state (run e (Script ls)))). tc_result d = PASS))"
    if finished: "run_lines e ls init = (None, s)"
  proof -
    have "failed_tests init = [] \<longrightarrow> (\<forall>d\<in>set (cases_of init). tc_result d = PASS)"
      by (simp add: cases_of_def init_def)
    with finished have "failed_tests s = [] \<longrightarrow> (\<forall>d\<in>set (cases_of s). tc_result d = PASS)"
      by (rule all_pass_run_lines)
    with generate_report_subset [of s]
    have "failed_tests s = [] \<longrightarrow>
        (\<forall>d\<in>set (test_results (fst (generate_report s))). tc_result d = PASS)"
      by blast
    then show ?thesis by (simp add: run_completes [OF finished])
  qed
  have abnormal: "ending (abnormal_exit e z t) = Exit (if z = KeyboardInterrupt then 130 else 1)"
    if "fst (cmd_power_off e [] t) = None" for z t
    using that
    by (cases "cmd_power_off e [] t"; cases "generate_report (snd (cmd_power_off e [] t))")
       (simp add: abnormal_exit_def)
  have uncaught: "ending (abnormal_exit e z t) = Uncaught y"
    if "fst (cmd_power_off e [] t) = Some y" for z t
    using that by (cases "cmd_power_off e [] t") (simp add: abnormal_exit_def)
  have unreadable: "ending (run e (Unreadable m)) = Exit 1"
    if "fst (cmd_power_off e [] init) = None"
    using abnormal [OF that, of "OSError m"] by (simp add: run_def)
  from normal abnormal uncaught unreadable show ?thesis
    by (auto simp: run_aborts)
qed

theorem exit_status_witness:
  "run_lines (quiet_env '''') [''TEST T1 t''] init
     = (None, snd (run_lines (quiet_env '''') [''TEST T1 t''] init))
   \<and> ending (run (quiet_env '''') (Script [''TEST T1 t''])) = Exit 0
   \<and> ending (run (quiet_env '''') (Script [''TEST T1 t'', ''CHECK_DIFF 1 2 0''])) = Exit 1
   \<and> run_lines interrupted_env [''POWER_ON''] init = (Some KeyboardInterrupt, init\<lparr>clock := 1\<rparr>)
   \<and> ending (run interrupted_env (Script [''POWER_ON''])) = Exit 130
   \<and> ending (run (quiet_env '''') (Script [''WAIT abc''])) = Exit 1
   \<and> ending (run interrupted_env (Unreadable ''denied'')) = Uncaught KeyboardInterrupt
   \<and> ending (run (quiet_env '''') (Unreadable ''denied'')) = Exit 1"
proof -
  let ?q = "quiet_env ''''"
  have r0: "run_lines ?q [''TEST T1 t''] init = (None, snd (run_lines ?q [''TEST T1 t''] init))"
    and f0: "failed_tests (snd (run_lines ?q [''TEST T1 t''] init)) = []"
    by (simp_all add: handler_eval string_eval)
  have r1: "run_lines ?q [''TEST T1 t'', ''CHECK_DIFF 1 2 0''] init
      = (None, snd (run_lines ?q [''TEST T1 t'', ''CHECK_DIFF 1 2 0''] init))"
    and f1: "failed_tests (snd (run_lines ?q [''TEST T1 t'', ''CHECK_DIFF 1 2 0''] init)) \<noteq> []"
    by (simp_all add: handler_eval string_eval float_eval)
  have r2: "run_lines interrupted_env [''POWER_ON''] init
      = (Some KeyboardInterrupt, init\<lparr>clock := 1\<rparr>)"
    and p2: "fst (cmd_power_off interrupted_env [] (init\<lparr>clock := 1\<rparr>)) = None"
    by (simp_all add: handler_eval string_eval interrupted_env_def quiet_env_def
        cmd_power_on_def)
  have r3: "run_lines ?q [''WAIT abc''] init
      = (Some (ValueError (''could not convert string to float: '' @ [CHR 0x27] @ ''abc''
           @ [CHR 0x27])), init)"
    and p3: "fst (cmd_power_off ?q [] init) = None"
    by (simp_all add: handler_eval string_eval float_eval)
  have p4: "fst (cmd_power_off interrupted_env [] init) = Some KeyboardInterrupt"
    by (simp add: handler_eval interrupted_env_def quiet_env_def)
  have e0: "ending (run ?q (Script [''TEST T1 t''])) = Exit 0"
    using exit_status [of ?q "[''TEST T1 t'']" "snd (run_lines ?q [''TEST T1 t''] init)"] r0 f0
    by simp
  have e1: "ending (run ?q (Script [''TEST T1 t'', ''CHECK_DIFF 1 2 0''])) = Exit 1"
    using exit_status [of ?q "[''TEST T1 t'', ''CHECK_DIFF 1 2 0'']"
        "snd (run_lines ?q [''TEST T1 t'', ''CHECK_DIFF 1 2 0''] init)"] r1 f1
    by simp
  have e2: "ending (run interrupted_env (Script [''POWER_ON''])) = Exit 130"
    using exit_status [of interrupted_env "[''POWER_ON'']" "init\<lparr>clock := 1\<rparr>"
        KeyboardInterrupt] r2 p2
    by simp
  have e3: "ending (run ?q (Script [''WAIT abc''])) = Exit 1"
    using exit_status [of ?q "[''WAIT abc'']" init
        "ValueError (''could not convert string to float: '' @ [CHR 0x27] @ ''abc'' @ [CHR 0x27])"]
      r3 p3
    by simp
  have e4: "ending (run interrupted_env (Unreadable ''denied'')) = Uncaught KeyboardInterrupt"
    using p4 by (cases "cmd_power_off interrupted_env [] init") (simp add: run_def abnormal_exit_def)
  have e5: "ending (run ?q (Unreadable ''denied'')) = Exit 1"
    using exit_status [of ?q _ _ _ _ "''denied''"] p3 by simp
  from r0 e0 e1 r2 e2 e3 e4 e5 show ?thesis by blast
qed

text \<open>
  The claim as it was stated fails: a run that a fatal error ends and a run that
  completes with a failure both exit with status 1.
\<close>

theorem crash_code_counterexample:
  "fst (run_lines (quiet_env '''') [''WAIT abc''] init)
     = Some (ValueError (''could not convert string to float: '' @ [CHR 0x27] @ ''abc''
          @ [CHR 0x27]))
   \<and> ending (run (quiet_env '''') (Script [''WAIT abc''])) = Exit 1
   \<and> fst (run_lines (quiet_env '''') [''BOGUS''] init) = None
   \<and> ending (run (quiet_env '''') (Script [''BOGUS''])) = Exit 1"
  by (simp add: handler_eval string_eval float_eval)

section \<open>Undefined variables\<close>



end
